theory Spec2Isabelle
  imports Main "HOL-Library.AList"
begin

section \<open>Search business logic (search/api.py)\<close>

subsection \<open>Values, dictionaries and errors\<close>

text \<open>
  The Python values that travel through the field dictionaries, the facet term keys and
  the \<open>data\<close> payload of a result row. \<open>PStr\<close> stands for every type accepted by the test
  \<^verbatim>\<open>isinstance(x, (str, unicode, bytes, bytearray))\<close>; \<open>PDateRange\<close> is the \<open>DateRange\<close>
  value of \<open>search.utils\<close>, a pair of optional bounds (an absent bound is \<open>None\<close>).
  A naive datetime is the integer number of microseconds on the time axis.
\<close>

datatype pyval =
    PNone
  | PBool bool
  | PInt int
  | PStr string
  | PDateRange "int option" "int option"
  | PDict "(string \<times> pyval) list"

text \<open>
  Dictionaries are association lists with one entry per key: \<open>map_of\<close> is the lookup,
  \<open>AList.update\<close> the subscript assignment, \<open>AList.delete\<close> the removal.
\<close>

type_synonym 'v pydict = "(string \<times> 'v) list"

datatype error =
    NoSearchEngineError
  | KeyError
  | AttributeError
  | ValueError
  | TypeError
  | EngineError string

text \<open>\<^verbatim>\<open>d.get(k, default)\<close> on a dictionary.\<close>

definition dict_get :: "'v pydict \<Rightarrow> string \<Rightarrow> 'v \<Rightarrow> 'v" where
  "dict_get d k dflt = (case map_of d k of None \<Rightarrow> dflt | Some v \<Rightarrow> v)"

text \<open>\<^verbatim>\<open>d[k]\<close>: a missing key raises \<open>KeyError\<close>.\<close>

definition dict_item :: "'v pydict \<Rightarrow> string \<Rightarrow> error + 'v" where
  "dict_item d k = (case map_of d k of None \<Rightarrow> Inl KeyError | Some v \<Rightarrow> Inr v)"

text \<open>\<^verbatim>\<open>d.update(other)\<close>.\<close>

definition dict_update :: "'v pydict \<Rightarrow> 'v pydict \<Rightarrow> 'v pydict" where
  "dict_update d other = foldl (\<lambda>acc (k, v). AList.update k v acc) d other"

text \<open>\<^verbatim>\<open>d.pop(k, None)\<close>: the value found (or \<open>None\<close>) and the dictionary without the key.\<close>

definition dict_pop :: "pyval pydict \<Rightarrow> string \<Rightarrow> pyval \<times> pyval pydict" where
  "dict_pop d k = (dict_get d k PNone, AList.delete k d)"

text \<open>
  \<^verbatim>\<open>v.get(k, None)\<close> on a value: only a dictionary has the method, every other value
  raises \<open>AttributeError\<close>.
\<close>

definition val_get :: "pyval \<Rightarrow> string \<Rightarrow> error + pyval" where
  "val_get v k = (case v of PDict d \<Rightarrow> Inr (dict_get d k PNone) | _ \<Rightarrow> Inl AttributeError)"

subsection \<open>The clock and the timestamp parser\<close>

text \<open>
  \<^verbatim>\<open>datetime.utcnow()\<close> is an effect: every call reads the clock again. The clock is the
  sequence of its readings, and the state is the number of readings taken so far.
  The readings are taken to lie at least 30 days inside the range of \<open>datetime\<close>, so
  that adding or subtracting \<^verbatim>\<open>timedelta(days=30)\<close> does not overflow.
\<close>

type_synonym clock = "nat \<Rightarrow> int"

definition utcnow :: "clock \<Rightarrow> nat \<Rightarrow> int \<times> nat" where
  "utcnow clk n = (clk n, Suc n)"

text \<open>\<^verbatim>\<open>timedelta(days=d)\<close>, in microseconds.\<close>

definition timedelta_days :: "int \<Rightarrow> int" where
  "timedelta_days d = d * 86400000000"

text \<open>
  \<^verbatim>\<open>dateutil.parser.parse(s, ignoretz=True)\<close> belongs to an external library: it is a
  parameter, \<open>None\<close> where the library raises \<open>ValueError\<close>.
\<close>

type_synonym parser = "string \<Rightarrow> int option"

subsection \<open>The result envelope\<close>

text \<open>
  A facet is a dictionary with the keys \<open>terms\<close> (term to count) and \<open>total\<close>; the envelope
  has the keys \<open>results\<close>, \<open>facets\<close> and \<open>access_denied_count\<close>. A key that is absent from
  the Python dictionary is \<open>None\<close> here; a key that is present holds either Python's \<open>None\<close>
  (\<open>IsNone\<close>) or a value of its kind (\<open>Val\<close>). The two are kept apart because the source
  treats them differently: \<^verbatim>\<open>d.get(k, {})\<close> gives the default for an absent key only, and a
  method call or a subscript on \<open>None\<close> raises. A result row is a dictionary whose \<open>data\<close>
  key holds the payload.
\<close>

datatype 'a nullable = IsNone | Val 'a

type_synonym termdict = "(pyval \<times> int) list"

record facet =
  terms :: "termdict nullable option"
  total :: "int nullable option"

type_synonym item = "pyval pydict"

record envelope =
  results :: "item list nullable option"
  facets :: "facet nullable pydict nullable option"
  access_denied_count :: "nat option"

subsection \<open>Settings\<close>

record settings =
  COURSE_DISCOVERY_FILTERS :: "string list option"
  COURSE_DISCOVERY_FACETS :: "pyval pydict pydict option"
  COURSEWARE_INDEX_NAME :: "string option"
  SEARCH_SKIP_ENROLLMENT_START_DATE_FILTERING :: bool
  ALLOW_CATALOG_VISIBILITY_FILTER :: bool

definition DEFAULT_FILTER_FIELDS :: "string list" where
  "DEFAULT_FILTER_FIELDS = [''org'', ''modes'', ''language'']"

definition CATALOG_VISIBILITY_CATALOG_AND_ABOUT :: string where
  "CATALOG_VISIBILITY_CATALOG_AND_ABOUT = ''both''"

definition course_discovery_filter_fields :: "settings \<Rightarrow> string list" where
  "course_discovery_filter_fields st =
     (case COURSE_DISCOVERY_FILTERS st of None \<Rightarrow> DEFAULT_FILTER_FIELDS | Some fs \<Rightarrow> fs)"

definition course_discovery_facets :: "settings \<Rightarrow> pyval pydict pydict" where
  "course_discovery_facets st =
     (let dflt = foldl (\<lambda>acc field. AList.update field [(''size'', PInt 100)] acc) []
                   (course_discovery_filter_fields st)
      in case COURSE_DISCOVERY_FACETS st of None \<Rightarrow> dflt | Some f \<Rightarrow> f)"

subsection \<open>process_range_data: the start pass\<close>

text \<open>
  Lines 103 to 111: the bucket of a parsed key relative to one reading of the clock.
\<close>

definition start_bucket :: "int \<Rightarrow> int \<Rightarrow> string" where
  "start_bucket now key =
     (if key < now - timedelta_days 30 then ''current''
      else if key \<le> now then ''new''
      else if key < now + timedelta_days 30 then ''soon''
      else ''future'')"

text \<open>\<^verbatim>\<open>d[k] += v\<close> on a \<^verbatim>\<open>defaultdict(int)\<close>: a missing key counts as 0.\<close>

definition defaultdict_add :: "termdict \<Rightarrow> pyval \<Rightarrow> int \<Rightarrow> termdict" where
  "defaultdict_add d k v = AList.update k ((case map_of d k of None \<Rightarrow> 0 | Some c \<Rightarrow> c) + v) d"

text \<open>
  Lines 98 to 112, the loop over \<^verbatim>\<open>start_terms.items()\<close>: a key that is no string is
  passed over; a string is parsed (the parser's error leaves the loop), the clock is
  read, and the count is added to the key's bucket.
\<close>

fun start_loop :: "parser \<Rightarrow> clock \<Rightarrow> termdict \<Rightarrow> termdict \<Rightarrow> nat \<Rightarrow> error + (termdict \<times> nat)" where
  "start_loop parse clk [] new_start_terms n = Inr (new_start_terms, n)"
| "start_loop parse clk ((key, v) # rest) new_start_terms n =
     (case key of
        PStr s \<Rightarrow>
          (case parse s of
             None \<Rightarrow> Inl ValueError
           | Some k \<Rightarrow>
               (let (now, n') = utcnow clk n;
                    new_key = start_bucket now k
                in start_loop parse clk rest (defaultdict_add new_start_terms (PStr new_key) v) n'))
      | _ \<Rightarrow> start_loop parse clk rest new_start_terms n)"

text \<open>
  \<^verbatim>\<open>results['facets'][name]['terms'] = ts\<close> followed by
  \<^verbatim>\<open>results['facets'][name]['total'] = sum(ts.values())\<close>: each subscript on the left
  raises \<open>KeyError\<close> when the key is missing and \<open>TypeError\<close> when the object subscripted
  is \<open>None\<close>. Once the first assignment has passed, the second cannot fail.
\<close>

definition store_terms :: "string \<Rightarrow> termdict \<Rightarrow> envelope \<Rightarrow> error + envelope" where
  "store_terms name ts env =
     (case facets env of
        None \<Rightarrow> Inl KeyError
      | Some IsNone \<Rightarrow> Inl TypeError
      | Some (Val fs) \<Rightarrow>
          (case map_of fs name of
             None \<Rightarrow> Inl KeyError
           | Some IsNone \<Rightarrow> Inl TypeError
           | Some (Val f) \<Rightarrow>
               Inr (env\<lparr>facets :=
                      Some (Val (AList.update name
                              (Val (f\<lparr>terms := Some (Val ts),
                                      total := Some (Val (sum_list (map snd ts)))\<rparr>)) fs))\<rparr>)))"

text \<open>
  Line 94: \<^verbatim>\<open>results.get('facets', {}).get('start', {}).get('terms', {})\<close>. An absent key
  gives the empty dictionary; a \<open>facets\<close> or \<open>start\<close> that is \<open>None\<close> has no \<open>get\<close> and raises
  \<open>AttributeError\<close>. A \<open>terms\<close> that is \<open>None\<close> is returned as it is and fails the test
  \<^verbatim>\<open>if start_terms:\<close> of line 95 as the empty dictionary does, so both read as \<open>[]\<close>.
\<close>

definition get_start_terms :: "envelope \<Rightarrow> error + termdict" where
  "get_start_terms env =
     (case facets env of
        None \<Rightarrow> Inr []
      | Some IsNone \<Rightarrow> Inl AttributeError
      | Some (Val fs) \<Rightarrow>
          (case map_of fs ''start'' of
             None \<Rightarrow> Inr []
           | Some IsNone \<Rightarrow> Inl AttributeError
           | Some (Val f) \<Rightarrow>
               (case terms f of
                  None \<Rightarrow> Inr []
                | Some IsNone \<Rightarrow> Inr []
                | Some (Val ts) \<Rightarrow> Inr ts)))"

subsection \<open>process_range_data: the status pass\<close>

text \<open>
  The test \<^verbatim>\<open>term and parse(term) <= now\<close> on a string: the empty string is false
  without being parsed, any other string is parsed.
\<close>

definition parsed_le :: "parser \<Rightarrow> string \<Rightarrow> int \<Rightarrow> error + bool" where
  "parsed_le parse s now =
     (if s = [] then Inr False
      else case parse s of None \<Rightarrow> Inl ValueError | Some t \<Rightarrow> Inr (t \<le> now))"

text \<open>
  Lines 125 to 135 for one row: the bucket that is incremented, \<open>None\<close> for \<^verbatim>\<open>continue\<close>.
\<close>

definition status_bucket :: "parser \<Rightarrow> int \<Rightarrow> pyval \<Rightarrow> pyval \<Rightarrow> error + string option" where
  "status_bucket parse now start_term end_term =
     (case start_term of
        PStr s \<Rightarrow>
          (case parsed_le parse s now of
             Inl e \<Rightarrow> Inl e
           | Inr True \<Rightarrow>
               (case end_term of
                  PStr e \<Rightarrow>
                    (case parsed_le parse e now of
                       Inl err \<Rightarrow> Inl err
                     | Inr True \<Rightarrow> Inr (Some ''past'')
                     | Inr False \<Rightarrow> Inr (Some ''current''))
                | _ \<Rightarrow> Inr None)
           | Inr False \<Rightarrow> Inr (Some ''future''))
      | _ \<Rightarrow> Inr None)"

text \<open>
  Line 120, \<^verbatim>\<open>results.get('results', [])\<close> as the \<^verbatim>\<open>for\<close> statement takes it: an absent key
  gives the empty list, and iterating over \<open>None\<close> raises \<open>TypeError\<close>.
\<close>

definition get_results :: "envelope \<Rightarrow> error + item list" where
  "get_results env =
     (case results env of
        None \<Rightarrow> Inr []
      | Some IsNone \<Rightarrow> Inl TypeError
      | Some (Val rs) \<Rightarrow> Inr rs)"

text \<open>Lines 120 to 135, the loop over the rows.\<close>

fun status_loop :: "parser \<Rightarrow> clock \<Rightarrow> item list \<Rightarrow> termdict \<Rightarrow> nat \<Rightarrow> error + (termdict \<times> nat)" where
  "status_loop parse clk [] status_terms n = Inr (status_terms, n)"
| "status_loop parse clk (course # rest) status_terms n =
     (case val_get (dict_get course ''data'' (PDict [])) ''start'' of
        Inl e \<Rightarrow> Inl e
      | Inr start_term \<Rightarrow>
          (case val_get (dict_get course ''data'' (PDict [])) ''end'' of
             Inl e \<Rightarrow> Inl e
           | Inr end_term \<Rightarrow>
               (let (now, n') = utcnow clk n in
                case status_bucket parse now start_term end_term of
                  Inl e \<Rightarrow> Inl e
                | Inr None \<Rightarrow> status_loop parse clk rest status_terms n'
                | Inr (Some b) \<Rightarrow>
                    status_loop parse clk rest (defaultdict_add status_terms (PStr b) 1) n')))"

subsection \<open>process_range_data\<close>

definition process_range_data ::
  "settings \<Rightarrow> parser \<Rightarrow> clock \<Rightarrow> nat \<Rightarrow> envelope \<Rightarrow> error + (envelope \<times> nat)" where
  "process_range_data st parse clk n res =
     (if ''start'' \<in> set (course_discovery_filter_fields st) then
        (case get_start_terms res of
           Inl e \<Rightarrow> Inl e
         | Inr start_terms \<Rightarrow>
             if start_terms \<noteq> [] then
               (case start_loop parse clk start_terms [] n of
                  Inl e \<Rightarrow> Inl e
                | Inr (new_start_terms, n') \<Rightarrow>
                    (case store_terms ''start'' new_start_terms res of
                       Inl e \<Rightarrow> Inl e
                     | Inr res' \<Rightarrow> Inr (res', n')))
             else Inr (res, n))
      else if ''status'' \<in> set (course_discovery_filter_fields st) then
        (case get_results res of
           Inl e \<Rightarrow> Inl e
         | Inr rows \<Rightarrow>
             (case status_loop parse clk rows [] n of
                Inl e \<Rightarrow> Inl e
              | Inr (status_terms, n') \<Rightarrow>
                  (case store_terms ''status'' status_terms res of
                     Inl e \<Rightarrow> Inl e
                   | Inr res' \<Rightarrow> Inr (res', n'))))
      else Inr (res, n))"

subsection \<open>Filters, collaborators and the engine contract\<close>

text \<open>\<^verbatim>\<open>_format_filter(filter, missing_included=True)\<close>.\<close>

record formatted_filter =
  fvalue :: pyval
  missing_included :: bool

definition format_filter :: "pyval \<Rightarrow> bool \<Rightarrow> formatted_filter" where
  "format_filter v mi = \<lparr>fvalue = v, missing_included = mi\<rparr>"

record user =
  is_staff :: bool

text \<open>
  The keyword arguments the two entry points read or hand to the filter generator; an
  absent keyword is \<open>None\<close>.
\<close>

record kwargs =
  kw_user :: "user option"
  kw_course_id :: "string option"
  kw_include_course_filter :: "bool option"
  kw_allow_enrollment_end_filter :: "bool option"

text \<open>
  \<^verbatim>\<open>SearchFilterGenerator.generate_field_filters\<close>, \<^verbatim>\<open>SearchResultProcessor.process_result\<close>
  and \<^verbatim>\<open>SearchEngine.get_search_engine\<close> live in other modules: they are parameters.
  An engine is the pair of its two search operations, each of which may fail.
\<close>

type_synonym filter_generator = "kwargs \<Rightarrow> pyval pydict \<times> pyval pydict \<times> pyval pydict"

type_synonym result_processor = "pyval \<Rightarrow> string \<Rightarrow> user option \<Rightarrow> pyval"

record search_string_args =
  ss_search_term :: string
  ss_field_dictionary :: "pyval pydict"
  ss_filter_dictionary :: "formatted_filter pydict"
  ss_exclude_dictionary :: "pyval pydict"
  ss_size :: int
  ss_from :: int
  ss_doc_type :: string
  ss_include_content :: bool

record search_args =
  sa_query_string :: "string option"
  sa_doc_type :: string
  sa_size :: int
  sa_from :: int
  sa_field_dictionary :: "pyval pydict"
  sa_filter_dictionary :: "formatted_filter pydict"
  sa_exclude_dictionary :: "pyval pydict"
  sa_facet_terms :: "pyval pydict pydict"

record engine =
  search_string :: "search_string_args \<Rightarrow> error + envelope"
  search :: "search_args \<Rightarrow> error + envelope"

type_synonym engine_lookup = "string \<Rightarrow> engine option"

definition index_name :: "settings \<Rightarrow> string" where
  "index_name st = (case COURSEWARE_INDEX_NAME st of None \<Rightarrow> ''courseware_index'' | Some i \<Rightarrow> i)"

subsection \<open>perform_search\<close>

text \<open>
  Lines 74 and 75: \<^verbatim>\<open>result["data"] = process_result(result["data"], search_term, user)\<close>
  for every row; a row without the key raises \<open>KeyError\<close>. The subscript
  \<^verbatim>\<open>results["results"]\<close> raises \<open>KeyError\<close> on an absent key, and iterating over \<open>None\<close>
  raises \<open>TypeError\<close>.
\<close>

fun process_results :: "result_processor \<Rightarrow> string \<Rightarrow> user option \<Rightarrow> item list \<Rightarrow> error + item list" where
  "process_results process_result search_term usr [] = Inr []"
| "process_results process_result search_term usr (result # rest) =
     (case dict_item result ''data'' of
        Inl e \<Rightarrow> Inl e
      | Inr d \<Rightarrow>
          (case process_results process_result search_term usr rest of
             Inl e \<Rightarrow> Inl e
           | Inr rest' \<Rightarrow>
               Inr (AList.update ''data'' (process_result d search_term usr) result # rest')))"

definition data_is_None :: "item \<Rightarrow> bool" where
  "data_is_None r = (map_of r ''data'' = Some PNone)"

definition perform_search ::
  "settings \<Rightarrow> filter_generator \<Rightarrow> engine_lookup \<Rightarrow> result_processor \<Rightarrow>
   string \<Rightarrow> user option \<Rightarrow> int \<Rightarrow> int \<Rightarrow> string option \<Rightarrow> error + envelope" where
  "perform_search st generate_field_filters get_search_engine process_result
     search_term usr sz frm course_id =
     (let (field_dictionary, filter_dictionary, exclude_dictionary) =
            generate_field_filters
              \<lparr>kw_user = usr, kw_course_id = course_id,
               kw_include_course_filter = None, kw_allow_enrollment_end_filter = None\<rparr>
      in case get_search_engine (index_name st) of
           None \<Rightarrow> Inl NoSearchEngineError
         | Some searcher \<Rightarrow>
             (let filter_dictionary' = map (\<lambda>(key, v). (key, format_filter v True)) filter_dictionary
              in case search_string searcher
                        \<lparr>ss_search_term = search_term,
                         ss_field_dictionary = field_dictionary,
                         ss_filter_dictionary = filter_dictionary',
                         ss_exclude_dictionary = exclude_dictionary,
                         ss_size = sz, ss_from = frm,
                         ss_doc_type = ''courseware_content'',
                         ss_include_content = True\<rparr> of
                   Inl e \<Rightarrow> Inl e
                 | Inr res \<Rightarrow>
                     (case results res of
                        None \<Rightarrow> Inl KeyError
                      | Some IsNone \<Rightarrow> Inl TypeError
                      | Some (Val raw) \<Rightarrow>
                          (case process_results process_result search_term usr raw of
                             Inl e \<Rightarrow> Inl e
                           | Inr rs \<Rightarrow>
                               Inr (res\<lparr>access_denied_count := Some (length (filter data_is_None rs)),
                                        results := Some (Val (filter (\<lambda>r. \<not> data_is_None r) rs))\<rparr>)))))"

subsection \<open>course_discovery_search\<close>

text \<open>Lines 149 to 158: the field dictionary before the pseudo-fields are taken out.\<close>

definition use_field_dictionary_of ::
  "settings \<Rightarrow> pyval pydict \<Rightarrow> clock \<Rightarrow> nat \<Rightarrow> pyval pydict option \<Rightarrow> kwargs \<Rightarrow> pyval pydict \<times> nat" where
  "use_field_dictionary_of st search_fields clk n field_dictionary kw =
     (let use_search_fields =
            (if kw_include_course_filter kw = Some True \<and>
                (case kw_user kw of None \<Rightarrow> False | Some u \<Rightarrow> \<not> is_staff u)
             then [''org'', ''course''] else [''org'']);
          d0 = dict_update [] (filter (\<lambda>(field, v). field \<in> set use_search_fields) search_fields);
          d1 = (case field_dictionary of
                  None \<Rightarrow> d0
                | Some fd \<Rightarrow> if fd \<noteq> [] then dict_update d0 fd else d0)
      in if \<not> SEARCH_SKIP_ENROLLMENT_START_DATE_FILTERING st then
           (let (now, n') = utcnow clk n
            in (AList.update ''enrollment_start'' (PDateRange None (Some now)) d1, n'))
         else (d1, n))"

text \<open>Lines 170 to 196: the filter for the popped \<open>start\<close> value.\<close>

definition start_filter ::
  "clock \<Rightarrow> nat \<Rightarrow> pyval \<Rightarrow> formatted_filter pydict \<Rightarrow> formatted_filter pydict \<times> nat" where
  "start_filter clk n start filter_dictionary =
     (if start = PStr ''current'' then
        (let (t1, n1) = utcnow clk n
         in (AList.update ''start''
               (format_filter (PDateRange None (Some (t1 - timedelta_days 30))) True)
               filter_dictionary, n1))
      else if start = PStr ''new'' then
        (let (t1, n1) = utcnow clk n; (t2, n2) = utcnow clk n1
         in (AList.update ''start''
               (format_filter (PDateRange (Some (t1 - timedelta_days 30)) (Some t2)) True)
               filter_dictionary, n2))
      else if start = PStr ''soon'' then
        (let (t1, n1) = utcnow clk n; (t2, n2) = utcnow clk n1
         in (AList.update ''start''
               (format_filter (PDateRange (Some t1) (Some (t2 + timedelta_days 30))) True)
               filter_dictionary, n2))
      else if start = PStr ''future'' then
        (let (t1, n1) = utcnow clk n
         in (AList.update ''start''
               (format_filter (PDateRange (Some (t1 + timedelta_days 30)) None) True)
               filter_dictionary, n1))
      else (filter_dictionary, n))"

text \<open>Lines 199 to 218: the filters for the popped \<open>status\<close> value.\<close>

definition status_filter ::
  "clock \<Rightarrow> nat \<Rightarrow> pyval \<Rightarrow> formatted_filter pydict \<Rightarrow> formatted_filter pydict \<times> nat" where
  "status_filter clk n status filter_dictionary =
     (if status = PStr ''past'' then
        (let (t1, n1) = utcnow clk n
         in (AList.update ''end'' (format_filter (PDateRange None (Some t1)) False)
               filter_dictionary, n1))
      else if status = PStr ''current'' then
        (let (t1, n1) = utcnow clk n; (t2, n2) = utcnow clk n1
         in (AList.update ''end'' (format_filter (PDateRange (Some t2) None) True)
               (AList.update ''start'' (format_filter (PDateRange None (Some t1)) True)
                  filter_dictionary), n2))
      else if status = PStr ''future'' then
        (let (t1, n1) = utcnow clk n
         in (AList.update ''start'' (format_filter (PDateRange (Some t1) None) True)
               filter_dictionary, n1))
      else (filter_dictionary, n))"

text \<open>
  Lines 164 to 234: the filter dictionary, the two pops, the catalog visibility, and the
  arguments of \<^verbatim>\<open>searcher.search\<close>.
\<close>

definition search_arguments ::
  "settings \<Rightarrow> clock \<Rightarrow> nat \<Rightarrow> string option \<Rightarrow> int \<Rightarrow> int \<Rightarrow> pyval pydict \<Rightarrow> pyval pydict \<Rightarrow>
   kwargs \<Rightarrow> search_args \<times> nat" where
  "search_arguments st clk n search_term sz frm use_field_dictionary exclude_dictionary kw =
     (let (fd0, n0) =
            (if kw_allow_enrollment_end_filter kw = Some True then
               (let (now, n') = utcnow clk n
                in (AList.update ''enrollment_end''
                      (format_filter (PDateRange (Some now) None) True) [], n'))
             else ([], n));
          (start, ufd1) = dict_pop use_field_dictionary ''start'';
          (fd1, n1) = start_filter clk n0 start fd0;
          (status, ufd2) = dict_pop ufd1 ''status'';
          (fd2, n2) = status_filter clk n1 status fd1;
          ufd3 = (if ALLOW_CATALOG_VISIBILITY_FILTER st
                  then AList.update ''catalog_visibility''
                         (PStr CATALOG_VISIBILITY_CATALOG_AND_ABOUT) ufd2
                  else ufd2)
      in (\<lparr>sa_query_string = search_term,
           sa_doc_type = ''course_info'',
           sa_size = sz, sa_from = frm,
           sa_field_dictionary = ufd3,
           sa_filter_dictionary = fd2,
           sa_exclude_dictionary = exclude_dictionary,
           sa_facet_terms = course_discovery_facets st\<rparr>, n2))"

definition course_discovery_search ::
  "settings \<Rightarrow> filter_generator \<Rightarrow> engine_lookup \<Rightarrow> parser \<Rightarrow> clock \<Rightarrow> nat \<Rightarrow>
   string option \<Rightarrow> int \<Rightarrow> int \<Rightarrow> pyval pydict option \<Rightarrow> kwargs \<Rightarrow> error + (envelope \<times> nat)" where
  "course_discovery_search st generate_field_filters get_search_engine parse clk n
     search_term sz frm field_dictionary kw =
     (let (search_fields, _, exclude_dictionary) = generate_field_filters kw;
          (use_field_dictionary, n1) =
            use_field_dictionary_of st search_fields clk n field_dictionary kw
      in case get_search_engine (index_name st) of
           None \<Rightarrow> Inl NoSearchEngineError
         | Some searcher \<Rightarrow>
             (let (args, n2) =
                    search_arguments st clk n1 search_term sz frm
                      use_field_dictionary exclude_dictionary kw
              in case search searcher args of
                   Inl e \<Rightarrow> Inl e
                 | Inr res \<Rightarrow> process_range_data st parse clk n2 res))"

subsection \<open>The inverse mappings as the specification words them\<close>

text \<open>
  The table of section 4.1 of the specification for a symbolic start bucket, relative to
  one reference instant \<open>now\<close>: the entries it adds to the filter dictionary. It is
  compared below with \<open>start_filter\<close>, which comes from the source.
\<close>

definition spec_start_filter :: "int \<Rightarrow> pyval \<Rightarrow> formatted_filter pydict" where
  "spec_start_filter now b =
     (if b = PStr ''current'' then
        [(''start'', \<lparr>fvalue = PDateRange None (Some (now - timedelta_days 30)), missing_included = True\<rparr>)]
      else if b = PStr ''new'' then
        [(''start'', \<lparr>fvalue = PDateRange (Some (now - timedelta_days 30)) (Some now), missing_included = True\<rparr>)]
      else if b = PStr ''soon'' then
        [(''start'', \<lparr>fvalue = PDateRange (Some now) (Some (now + timedelta_days 30)), missing_included = True\<rparr>)]
      else if b = PStr ''future'' then
        [(''start'', \<lparr>fvalue = PDateRange (Some (now + timedelta_days 30)) None, missing_included = True\<rparr>)]
      else [])"

text \<open>
  The table of section 4.1 for a symbolic status, compared below with \<open>status_filter\<close>.
\<close>

definition spec_status_filter :: "int \<Rightarrow> pyval \<Rightarrow> formatted_filter pydict" where
  "spec_status_filter now s =
     (if s = PStr ''past'' then
        [(''end'', \<lparr>fvalue = PDateRange None (Some now), missing_included = False\<rparr>)]
      else if s = PStr ''current'' then
        [(''start'', \<lparr>fvalue = PDateRange None (Some now), missing_included = True\<rparr>),
         (''end'', \<lparr>fvalue = PDateRange (Some now) None, missing_included = True\<rparr>)]
      else if s = PStr ''future'' then
        [(''start'', \<lparr>fvalue = PDateRange (Some now) None, missing_included = True\<rparr>)]
      else [])"

subsection \<open>The DateRange reading and concrete instances\<close>

text \<open>
  Modelled from the spec: the class \<open>DateRange\<close> of \<open>search.utils\<close> is a pair of bounds,
  an absent bound meaning unbounded on that side; a timestamp lies strictly inside the
  range when it is strictly above the lower and strictly below the upper bound.
\<close>

definition strictly_inside :: "int option \<Rightarrow> int option \<Rightarrow> int \<Rightarrow> bool" where
  "strictly_inside lower upper t =
     ((case lower of None \<Rightarrow> True | Some l \<Rightarrow> l < t) \<and>
      (case upper of None \<Rightarrow> True | Some u \<Rightarrow> t < u))"

text \<open>
  A clock that stands at one instant for the whole call: the reference instant \<open>now\<close>
  of the specification.
\<close>

definition fixed_clock :: "int \<Rightarrow> clock" where
  "fixed_clock now i = now"

text \<open>
  The parser on the strings of the examples, with 1970-01-01 as instant 0; every other
  string, such as \<open>garbage\<close>, is rejected. The examples take 1970-04-11 as \<open>now\<close>.
\<close>

definition example_parse :: parser where
  "example_parse s =
     map_option timedelta_days
       (map_of [(''1970-01-01T00:00:00'', 0), (''1970-04-06T00:00:00'', 95),
                (''1970-04-10T00:00:00'', 99), (''1970-04-11T00:00:00'', 100),
                (''1970-04-16T00:00:00'', 105), (''1970-05-21T00:00:00'', 140)] s)"

definition example_now :: int where
  "example_now = timedelta_days 100"

definition example_settings :: "string list option \<Rightarrow> settings" where
  "example_settings fs =
     \<lparr>COURSE_DISCOVERY_FILTERS = fs, COURSE_DISCOVERY_FACETS = None,
      COURSEWARE_INDEX_NAME = None,
      SEARCH_SKIP_ENROLLMENT_START_DATE_FILTERING = False,
      ALLOW_CATALOG_VISIBILITY_FILTER = False\<rparr>"

definition example_start_envelope :: envelope where
  "example_start_envelope =
     \<lparr>results = Some (Val []),
      facets = Some (Val [(''start'',
                 Val \<lparr>terms = Some (Val [(PStr ''1970-01-01T00:00:00'', 4),
                                (PStr ''1970-04-06T00:00:00'', 2), (PInt 7, 9)]),
                  total = Some (Val 15)\<rparr>)]),
      access_denied_count = None\<rparr>"

definition example_status_envelope ::
  "string \<Rightarrow> facet nullable pydict nullable option \<Rightarrow> envelope" where
  "example_status_envelope start fs =
     \<lparr>results = Some (Val [[(''data'', PDict [(''start'', PStr start),
                                        (''end'', PStr ''1970-04-10T00:00:00'')])],
                      [(''data'', PDict [(''end'', PStr ''1970-04-10T00:00:00'')])]]),
      facets = fs,
      access_denied_count = None\<rparr>"

text \<open>
  Collaborators for the examples: a filter generator, a result processor that denies the
  rows marked \<open>hidden\<close>, and an engine registered under the default index name.
\<close>

definition example_generator :: filter_generator where
  "example_generator kw =
     ([(''org'', PStr ''edX''), (''course'', PStr ''course-v1:edX+Demo+2020'')],
      [(''start_date'', PDateRange None (Some example_now))],
      [])"

definition example_processor :: result_processor where
  "example_processor d search_term usr =
     (case d of
        PDict kv \<Rightarrow> if map_of kv ''hidden'' = Some (PBool True) then PNone else d
      | _ \<Rightarrow> PNone)"

definition example_engine :: engine where
  "example_engine =
     \<lparr>search_string = (\<lambda>args.
        Inr \<lparr>results = Some (Val [[(''data'', PDict [(''id'', PInt 1)])],
                             [(''data'', PDict [(''id'', PInt 2), (''hidden'', PBool True)])],
                             [(''data'', PDict [(''id'', PInt 3)])]]),
             facets = None, access_denied_count = None\<rparr>),
      search = (\<lambda>args. Inr example_start_envelope)\<rparr>"

definition example_lookup :: engine_lookup where
  "example_lookup name = (if name = ''courseware_index'' then Some example_engine else None)"

section \<open>Properties\<close>

subsection \<open>The start buckets\<close>

text \<open>
  C1. A string facet key that parses to the timestamp \<open>t\<close> adds its count to exactly one
  bucket, the one of \<open>t\<close> relative to the reading \<open>now\<close> of the clock: \<open>current\<close> when
  \<open>t < now - 30d\<close>, \<open>new\<close> when \<open>now - 30d \<le> t \<le> now\<close>, \<open>soon\<close> when \<open>now < t < now + 30d\<close>,
  \<open>future\<close> when \<open>t \<ge> now + 30d\<close>. The four conditions exclude one another and cover the
  axis, so the buckets partition the timestamps.
\<close>

theorem start_bucket_partition:
  assumes "parse s = Some t"
  shows "start_loop parse clk [(PStr s, v)] d n =
           Inr (defaultdict_add d (PStr (start_bucket (clk n) t)) v, Suc n)
       \<and> (start_bucket now t = ''current'') = (t < now - timedelta_days 30)
       \<and> (start_bucket now t = ''new'') = (now - timedelta_days 30 \<le> t \<and> t \<le> now)
       \<and> (start_bucket now t = ''soon'') = (now < t \<and> t < now + timedelta_days 30)
       \<and> (start_bucket now t = ''future'') = (now + timedelta_days 30 \<le> t)
       \<and> start_bucket now t \<in> {''current'', ''new'', ''soon'', ''future''}"
  using assms by (auto simp: start_bucket_def utcnow_def timedelta_days_def)

theorem start_bucket_partition_witness:
  "example_parse ''1970-04-06T00:00:00'' = Some (timedelta_days 95)
   \<and> start_loop example_parse (fixed_clock example_now) [(PStr ''1970-04-06T00:00:00'', 7)] [] 0 =
       Inr ([(PStr ''new'', 7)], 1)"
  using start_bucket_partition [of example_parse "''1970-04-06T00:00:00''" "timedelta_days 95"
      "fixed_clock example_now" 7 "[]" 0 example_now]
  by (simp add: example_parse_def fixed_clock_def example_now_def defaultdict_add_def
        start_bucket_def timedelta_days_def)

subsection \<open>The status buckets\<close>

text \<open>
  One turn of the status loop on a row whose \<open>data\<close> is a dictionary: an absent \<open>start\<close>
  or \<open>end\<close> reads as \<open>None\<close>, the clock is read once, and the row is counted in the bucket
  that \<open>status_bucket\<close> returns, in none when it returns \<open>None\<close>.
\<close>

lemma status_loop_row:
  assumes "map_of course ''data'' = Some (PDict d)"
  shows "status_loop parse clk (course # rest) acc n =
           (case status_bucket parse (clk n) (dict_get d ''start'' PNone) (dict_get d ''end'' PNone) of
              Inl e \<Rightarrow> Inl e
            | Inr None \<Rightarrow> status_loop parse clk rest acc (Suc n)
            | Inr (Some b) \<Rightarrow> status_loop parse clk rest (defaultdict_add acc (PStr b) 1) (Suc n))"
  using assms by (simp add: dict_get_def val_get_def utcnow_def)

text \<open>
  C2, as amended. For a row with the fields \<open>start\<close> and \<open>end\<close>: a \<open>start\<close> that is absent
  or no string skips the row (it is counted in no bucket); for a non-empty \<open>start\<close> string
  that parses to a timestamp at or before \<open>now\<close>, an \<open>end\<close> that is absent or no string
  skips the row, a non-empty \<open>end\<close> string parsing to a timestamp at or before \<open>now\<close> gives
  \<open>past\<close>, and one parsing to a later timestamp gives \<open>current\<close>; a non-empty \<open>start\<close> string
  parsing to a timestamp after \<open>now\<close> gives \<open>future\<close>. A non-empty string that the parser
  rejects is not skipped: the parser's \<open>ValueError\<close> leaves the classifier.
\<close>

theorem status_bucket_by_cases:
  "(map_of course ''data'' = Some (PDict d) \<longrightarrow>
      status_loop parse clk (course # rest) acc n =
        (case status_bucket parse (clk n) (dict_get d ''start'' PNone) (dict_get d ''end'' PNone) of
           Inl err \<Rightarrow> Inl err
         | Inr None \<Rightarrow> status_loop parse clk rest acc (Suc n)
         | Inr (Some b) \<Rightarrow> status_loop parse clk rest (defaultdict_add acc (PStr b) 1) (Suc n)))
   \<and> ((\<forall>x. start_term \<noteq> PStr x) \<longrightarrow> status_bucket parse now start_term end_term = Inr None)
   \<and> (s \<noteq> [] \<and> parse s = None \<longrightarrow> status_bucket parse now (PStr s) end_term = Inl ValueError)
   \<and> (s \<noteq> [] \<and> parse s = Some st \<and> st \<le> now \<and> (\<forall>x. end_term \<noteq> PStr x) \<longrightarrow>
        status_bucket parse now (PStr s) end_term = Inr None)
   \<and> (s \<noteq> [] \<and> parse s = Some st \<and> st \<le> now \<and> e \<noteq> [] \<and> parse e = None \<longrightarrow>
        status_bucket parse now (PStr s) (PStr e) = Inl ValueError)
   \<and> (s \<noteq> [] \<and> parse s = Some st \<and> st \<le> now \<and> e \<noteq> [] \<and> parse e = Some en \<and> en \<le> now \<longrightarrow>
        status_bucket parse now (PStr s) (PStr e) = Inr (Some ''past''))
   \<and> (s \<noteq> [] \<and> parse s = Some st \<and> st \<le> now \<and> e \<noteq> [] \<and> parse e = Some en \<and> now < en \<longrightarrow>
        status_bucket parse now (PStr s) (PStr e) = Inr (Some ''current''))
   \<and> (s \<noteq> [] \<and> parse s = Some st \<and> now < st \<longrightarrow>
        status_bucket parse now (PStr s) end_term = Inr (Some ''future''))"
proof -
  have nostr: "(\<forall>x. v \<noteq> PStr x) \<Longrightarrow> (case v of PStr x \<Rightarrow> f x | _ \<Rightarrow> g) = g"
    for v and f :: "string \<Rightarrow> error + string option" and g
    by (cases v) simp_all
  have c1: "map_of course ''data'' = Some (PDict d) \<longrightarrow>
      status_loop parse clk (course # rest) acc n =
        (case status_bucket parse (clk n) (dict_get d ''start'' PNone) (dict_get d ''end'' PNone) of
           Inl err \<Rightarrow> Inl err
         | Inr None \<Rightarrow> status_loop parse clk rest acc (Suc n)
         | Inr (Some b) \<Rightarrow> status_loop parse clk rest (defaultdict_add acc (PStr b) 1) (Suc n))"
    using status_loop_row by blast
  have c2: "(\<forall>x. start_term \<noteq> PStr x) \<longrightarrow> status_bucket parse now start_term end_term = Inr None"
    by (simp add: status_bucket_def nostr)
  have c3: "s \<noteq> [] \<and> parse s = None \<longrightarrow> status_bucket parse now (PStr s) end_term = Inl ValueError"
    by (simp add: status_bucket_def parsed_le_def)
  have c4: "s \<noteq> [] \<and> parse s = Some st \<and> st \<le> now \<and> (\<forall>x. end_term \<noteq> PStr x) \<longrightarrow>
        status_bucket parse now (PStr s) end_term = Inr None"
    by (simp add: status_bucket_def parsed_le_def nostr)
  have c5: "s \<noteq> [] \<and> parse s = Some st \<and> st \<le> now \<and> e \<noteq> [] \<and> parse e = None \<longrightarrow>
        status_bucket parse now (PStr s) (PStr e) = Inl ValueError"
    by (simp add: status_bucket_def parsed_le_def)
  have c6: "s \<noteq> [] \<and> parse s = Some st \<and> st \<le> now \<and> e \<noteq> [] \<and> parse e = Some en \<and> en \<le> now \<longrightarrow>
        status_bucket parse now (PStr s) (PStr e) = Inr (Some ''past'')"
    by (simp add: status_bucket_def parsed_le_def)
  have c7: "s \<noteq> [] \<and> parse s = Some st \<and> st \<le> now \<and> e \<noteq> [] \<and> parse e = Some en \<and> now < en \<longrightarrow>
        status_bucket parse now (PStr s) (PStr e) = Inr (Some ''current'')"
    by (simp add: status_bucket_def parsed_le_def)
  have c8: "s \<noteq> [] \<and> parse s = Some st \<and> now < st \<longrightarrow>
        status_bucket parse now (PStr s) end_term = Inr (Some ''future'')"
    by (simp add: status_bucket_def parsed_le_def)
  from c1 c2 c3 c4 c5 c6 c7 c8 show ?thesis by (intro conjI)
qed


theorem status_bucket_by_cases_witness:
  "status_bucket example_parse example_now
      (PStr ''1970-04-06T00:00:00'') (PStr ''1970-04-10T00:00:00'') = Inr (Some ''past'')
   \<and> status_bucket example_parse example_now (PStr ''1970-04-06T00:00:00'') PNone = Inr None
   \<and> status_bucket example_parse example_now
      (PStr ''1970-04-06T00:00:00'') (PStr ''1970-04-16T00:00:00'') = Inr (Some ''current'')
   \<and> status_bucket example_parse example_now (PStr ''1970-04-16T00:00:00'') PNone =
        Inr (Some ''future'')
   \<and> status_bucket example_parse example_now PNone PNone = Inr None
   \<and> status_bucket example_parse example_now
      (PStr ''1970-04-06T00:00:00'') (PStr ''garbage'') = Inl ValueError
   \<and> status_loop example_parse (fixed_clock example_now)
        [[(''data'', PDict [(''start'', PStr ''1970-04-06T00:00:00''),
                            (''end'', PStr ''1970-04-10T00:00:00'')])]] [] 0 =
        Inr ([(PStr ''past'', 1)], 1)"
  using
    status_bucket_by_cases [where parse = example_parse and now = example_now
      and s = "''1970-04-06T00:00:00''" and st = "timedelta_days 95"
      and e = "''1970-04-10T00:00:00''" and en = "timedelta_days 99"
      and start_term = PNone and end_term = PNone
      and clk = "fixed_clock example_now" and n = 0 and acc = "[]" and rest = "[]"
      and course = "[(''data'', PDict [(''start'', PStr ''1970-04-06T00:00:00''),
                            (''end'', PStr ''1970-04-10T00:00:00'')])]"
      and d = "[(''start'', PStr ''1970-04-06T00:00:00''),
                            (''end'', PStr ''1970-04-10T00:00:00'')]"]
    status_bucket_by_cases [where parse = example_parse and now = example_now
      and s = "''1970-04-06T00:00:00''" and st = "timedelta_days 95"
      and e = "''1970-04-16T00:00:00''" and en = "timedelta_days 105"
      and start_term = PNone and end_term = PNone]
    status_bucket_by_cases [where parse = example_parse and now = example_now
      and s = "''1970-04-16T00:00:00''" and st = "timedelta_days 105"
      and end_term = PNone]
    status_bucket_by_cases [where parse = example_parse and now = example_now
      and s = "''1970-04-06T00:00:00''" and st = "timedelta_days 95"
      and e = "''garbage''"]
  by (simp add: example_parse_def example_now_def fixed_clock_def timedelta_days_def
        dict_get_def defaultdict_add_def)

text \<open>
  The claim as written fails on a \<open>start\<close> string that does not parse: the row is not
  skipped, the pass raises.
\<close>

theorem status_unparsable_start_counterexample:
  "example_parse ''garbage'' = None
   \<and> status_bucket example_parse example_now (PStr ''garbage'') PNone = Inl ValueError
   \<and> status_bucket example_parse example_now (PStr ''garbage'') PNone \<noteq> Inr None"
  by (simp add: example_parse_def status_bucket_def parsed_le_def)


text \<open>
  The empty string is a string, and the test \<^verbatim>\<open>start_term and ...\<close> is false on it
  before the parser is called: a row with an empty \<open>start\<close> is counted as \<open>future\<close>.
\<close>

lemma status_bucket_empty_string:
  "status_bucket parse now (PStr []) end_term = Inr (Some ''future'')"
  by (simp add: status_bucket_def parsed_le_def)

subsection \<open>Malformed values\<close>

lemma not_string_case:
  "(\<forall>x. v \<noteq> PStr x) \<Longrightarrow> (case v of PStr x \<Rightarrow> f x | _ \<Rightarrow> g) = g"
  by (cases v) simp_all

text \<open>
  C4, as amended. During bucketing, a value that is no string (a facet key of the start
  pass, a \<open>start\<close> or a needed \<open>end\<close> field of the status pass) is silently passed over:
  it adds to no bucket and raises nothing, and the loop goes on with the next entry.
  A string that the parser rejects is not passed over: the parser's \<open>ValueError\<close> ends the
  pass (in the status pass the empty string is never handed to the parser).
\<close>

theorem malformed_values:
  "((\<forall>x. key \<noteq> PStr x) \<longrightarrow>
      start_loop parse clk ((key, v) # ts) acc n = start_loop parse clk ts acc n)
   \<and> (parse s = None \<longrightarrow> start_loop parse clk ((PStr s, v) # ts) acc n = Inl ValueError)
   \<and> (map_of course ''data'' = Some (PDict d) \<and> (\<forall>x. dict_get d ''start'' PNone \<noteq> PStr x) \<longrightarrow>
        status_loop parse clk (course # rest) acc n = status_loop parse clk rest acc (Suc n))
   \<and> (map_of course ''data'' = Some (PDict d) \<and> dict_get d ''start'' PNone = PStr s
        \<and> s \<noteq> [] \<and> parse s = None \<longrightarrow>
        status_loop parse clk (course # rest) acc n = Inl ValueError)
   \<and> (map_of course ''data'' = Some (PDict d) \<and> dict_get d ''start'' PNone = PStr s
        \<and> s \<noteq> [] \<and> parse s = Some t \<and> t \<le> clk n
        \<and> (\<forall>x. dict_get d ''end'' PNone \<noteq> PStr x) \<longrightarrow>
        status_loop parse clk (course # rest) acc n = status_loop parse clk rest acc (Suc n))
   \<and> (map_of course ''data'' = Some (PDict d) \<and> dict_get d ''start'' PNone = PStr s
        \<and> s \<noteq> [] \<and> parse s = Some t \<and> t \<le> clk n
        \<and> dict_get d ''end'' PNone = PStr e \<and> e \<noteq> [] \<and> parse e = None \<longrightarrow>
        status_loop parse clk (course # rest) acc n = Inl ValueError)"
proof -
  have c1: "(\<forall>x. key \<noteq> PStr x) \<longrightarrow>
      start_loop parse clk ((key, v) # ts) acc n = start_loop parse clk ts acc n"
    by (simp add: not_string_case)
  have c2: "parse s = None \<longrightarrow> start_loop parse clk ((PStr s, v) # ts) acc n = Inl ValueError"
    by simp
  have c3: "map_of course ''data'' = Some (PDict d) \<and> (\<forall>x. dict_get d ''start'' PNone \<noteq> PStr x) \<longrightarrow>
        status_loop parse clk (course # rest) acc n = status_loop parse clk rest acc (Suc n)"
    by (simp add: status_loop_row status_bucket_def not_string_case del: status_loop.simps)
  have c4: "map_of course ''data'' = Some (PDict d) \<and> dict_get d ''start'' PNone = PStr s
        \<and> s \<noteq> [] \<and> parse s = None \<longrightarrow>
        status_loop parse clk (course # rest) acc n = Inl ValueError"
    by (simp add: status_loop_row status_bucket_def parsed_le_def del: status_loop.simps)
  have c5: "map_of course ''data'' = Some (PDict d) \<and> dict_get d ''start'' PNone = PStr s
        \<and> s \<noteq> [] \<and> parse s = Some t \<and> t \<le> clk n
        \<and> (\<forall>x. dict_get d ''end'' PNone \<noteq> PStr x) \<longrightarrow>
        status_loop parse clk (course # rest) acc n = status_loop parse clk rest acc (Suc n)"
    by (simp add: status_loop_row status_bucket_def parsed_le_def not_string_case del: status_loop.simps)
  have c6: "map_of course ''data'' = Some (PDict d) \<and> dict_get d ''start'' PNone = PStr s
        \<and> s \<noteq> [] \<and> parse s = Some t \<and> t \<le> clk n
        \<and> dict_get d ''end'' PNone = PStr e \<and> e \<noteq> [] \<and> parse e = None \<longrightarrow>
        status_loop parse clk (course # rest) acc n = Inl ValueError"
    by (simp add: status_loop_row status_bucket_def parsed_le_def del: status_loop.simps)
  from c1 c2 c3 c4 c5 c6 show ?thesis by (intro conjI)
qed

theorem malformed_values_witness:
  "start_loop example_parse (fixed_clock example_now)
      [(PInt 7, 9), (PStr ''1970-04-06T00:00:00'', 2)] [] 0 = Inr ([(PStr ''new'', 2)], 1)
   \<and> start_loop example_parse (fixed_clock example_now)
      [(PStr ''garbage'', 9), (PStr ''1970-04-06T00:00:00'', 2)] [] 0 = Inl ValueError
   \<and> status_loop example_parse (fixed_clock example_now)
      [[(''data'', PDict [(''start'', PInt 7)])]] [] 0 = Inr ([], 1)
   \<and> status_loop example_parse (fixed_clock example_now)
      [[(''data'', PDict [(''start'', PStr ''garbage'')])]] [] 0 = Inl ValueError
   \<and> status_loop example_parse (fixed_clock example_now)
      [[(''data'', PDict [(''start'', PStr ''1970-04-06T00:00:00'')])]] [] 0 = Inr ([], 1)
   \<and> status_loop example_parse (fixed_clock example_now)
      [[(''data'', PDict [(''start'', PStr ''1970-04-06T00:00:00''), (''end'', PStr ''garbage'')])]]
      [] 0 = Inl ValueError"
  using
    malformed_values [where parse = example_parse and clk = "fixed_clock example_now"
      and key = "PInt 7" and v = 9 and ts = "[(PStr ''1970-04-06T00:00:00'', 2)]"
      and acc = "[]" and n = 0 and s = "''garbage''"
      and course = "[(''data'', PDict [(''start'', PInt 7)])]" and d = "[(''start'', PInt 7)]"
      and rest = "[]"]
    malformed_values [where parse = example_parse and clk = "fixed_clock example_now"
      and acc = "[]" and n = 0 and s = "''garbage''"
      and course = "[(''data'', PDict [(''start'', PStr ''garbage'')])]"
      and d = "[(''start'', PStr ''garbage'')]" and rest = "[]"]
    malformed_values [where parse = example_parse and clk = "fixed_clock example_now"
      and acc = "[]" and n = 0 and s = "''1970-04-06T00:00:00''" and t = "timedelta_days 95"
      and course = "[(''data'', PDict [(''start'', PStr ''1970-04-06T00:00:00'')])]"
      and d = "[(''start'', PStr ''1970-04-06T00:00:00'')]" and rest = "[]"]
    malformed_values [where parse = example_parse and clk = "fixed_clock example_now"
      and acc = "[]" and n = 0 and s = "''1970-04-06T00:00:00''" and t = "timedelta_days 95"
      and e = "''garbage''"
      and course = "[(''data'', PDict [(''start'', PStr ''1970-04-06T00:00:00''), (''end'', PStr ''garbage'')])]"
      and d = "[(''start'', PStr ''1970-04-06T00:00:00''), (''end'', PStr ''garbage'')]" and rest = "[]"]
  by (simp add: example_parse_def fixed_clock_def example_now_def timedelta_days_def
        dict_get_def defaultdict_add_def utcnow_def start_bucket_def)

text \<open>
  The claim as written fails on a facet key that is a string and does not parse.
\<close>

theorem unparsable_key_raises_counterexample:
  "process_range_data (example_settings (Some [''org'', ''start''])) example_parse
       (fixed_clock example_now) 0
       \<lparr>results = Some (Val []),
        facets = Some (Val [(''start'',
                   Val \<lparr>terms = Some (Val [(PStr ''garbage'', 3)]), total = Some (Val 3)\<rparr>)]),
        access_denied_count = None\<rparr> = Inl ValueError"
  by (simp add: process_range_data_def example_settings_def course_discovery_filter_fields_def
        get_start_terms_def example_parse_def)

text \<open>
  A facet none of whose keys is a string is reclassified into no bucket at all, without
  reading the clock.
\<close>

lemma start_loop_no_strings:
  "\<forall>(key, v) \<in> set ts. \<forall>s. key \<noteq> PStr s \<Longrightarrow> start_loop parse clk ts acc n = Inr (acc, n)"
proof (induction ts)
  case Nil
  then show ?case by simp
next
  case (Cons kv ts)
  obtain key v where kv: "kv = (key, v)" by (cases kv)
  with Cons.prems have "\<forall>s. key \<noteq> PStr s" by simp
  then have "start_loop parse clk ((key, v) # ts) acc n = start_loop parse clk ts acc n"
    by (simp add: not_string_case)
  with Cons kv show ?case by simp
qed

subsection \<open>Storing the buckets\<close>


lemma store_terms_result:
  assumes "store_terms name ts res = Inr res'"
  shows "\<exists>fs f. facets res' = Some (Val fs) \<and> map_of fs name = Some (Val f)
           \<and> terms f = Some (Val ts) \<and> total f = Some (Val (sum_list (map snd ts)))"
  using assms
  by (auto simp: store_terms_def update_conv' split: option.splits nullable.splits)





lemma get_start_terms_missing:
  assumes "facets res = None \<or> (\<exists>fs. facets res = Some (Val fs) \<and> map_of fs ''start'' = None)"
  shows "get_start_terms res = Inr []"
  using assms by (auto simp: get_start_terms_def)

text \<open>
  C5. When \<open>process_range_data\<close> returns after reclassifying a facet (the \<open>start\<close> facet
  when \<open>start\<close> is configured and the facet has terms, the \<open>status\<close> facet when \<open>status\<close> is
  configured and \<open>start\<close> is not), the \<open>total\<close> stored in that facet is the sum of the
  counts of the \<open>terms\<close> stored in it.
\<close>

theorem total_is_sum_of_buckets:
  assumes "process_range_data st parse clk n res = Inr (res', n')"
    and "''start'' \<in> set (course_discovery_filter_fields st) \<and> get_start_terms res \<noteq> Inr []
           \<and> name = ''start''
         \<or> ''start'' \<notin> set (course_discovery_filter_fields st)
           \<and> ''status'' \<in> set (course_discovery_filter_fields st) \<and> name = ''status''"
  shows "\<exists>fs f ts. facets res' = Some (Val fs) \<and> map_of fs name = Some (Val f)
           \<and> terms f = Some (Val ts) \<and> total f = Some (Val (sum_list (map snd ts)))"
  using assms
  by (auto simp: process_range_data_def split: sum.splits prod.splits if_splits
       dest!: store_terms_result)

theorem total_is_sum_of_buckets_witness:
  "process_range_data (example_settings (Some [''org'', ''start''])) example_parse
       (fixed_clock example_now) 0 example_start_envelope =
     Inr (example_start_envelope
            \<lparr>facets := Some (Val [(''start'',
                Val \<lparr>terms = Some (Val [(PStr ''current'', 4), (PStr ''new'', 2)]),
                     total = Some (Val 6)\<rparr>)])\<rparr>, 2)
   \<and> process_range_data (example_settings (Some [''status''])) example_parse
       (fixed_clock example_now) 0
       (example_status_envelope ''1970-04-06T00:00:00''
          (Some (Val [(''status'', Val \<lparr>terms = None, total = None\<rparr>)]))) =
     Inr (example_status_envelope ''1970-04-06T00:00:00''
            (Some (Val [(''status'',
               Val \<lparr>terms = Some (Val [(PStr ''past'', 1)]), total = Some (Val 1)\<rparr>)])), 2)"
proof -
  have a: "process_range_data (example_settings (Some [''org'', ''start''])) example_parse
       (fixed_clock example_now) 0 example_start_envelope =
     Inr (example_start_envelope
            \<lparr>facets := Some (Val [(''start'',
                Val \<lparr>terms = Some (Val [(PStr ''current'', 4), (PStr ''new'', 2)]),
                     total = Some (Val 6)\<rparr>)])\<rparr>, 2)"
    by (simp add: process_range_data_def example_settings_def course_discovery_filter_fields_def
          example_start_envelope_def get_start_terms_def example_parse_def fixed_clock_def
          example_now_def utcnow_def start_bucket_def timedelta_days_def defaultdict_add_def
          store_terms_def)
  have b: "process_range_data (example_settings (Some [''status''])) example_parse
       (fixed_clock example_now) 0
       (example_status_envelope ''1970-04-06T00:00:00''
          (Some (Val [(''status'', Val \<lparr>terms = None, total = None\<rparr>)]))) =
     Inr (example_status_envelope ''1970-04-06T00:00:00''
            (Some (Val [(''status'',
               Val \<lparr>terms = Some (Val [(PStr ''past'', 1)]), total = Some (Val 1)\<rparr>)])), 2)"
    by (simp add: process_range_data_def example_settings_def course_discovery_filter_fields_def
          example_status_envelope_def example_parse_def fixed_clock_def get_results_def
          example_now_def utcnow_def status_bucket_def parsed_le_def timedelta_days_def
          defaultdict_add_def store_terms_def val_get_def dict_get_def)
  have sa: "''start'' \<in> set (course_discovery_filter_fields (example_settings (Some [''org'', ''start''])))
           \<and> get_start_terms example_start_envelope \<noteq> Inr [] \<and> ''start'' = ''start''"
    by (simp add: example_settings_def course_discovery_filter_fields_def
          example_start_envelope_def get_start_terms_def)
  have sb: "''start'' \<notin> set (course_discovery_filter_fields (example_settings (Some [''status''])))
           \<and> ''status'' \<in> set (course_discovery_filter_fields (example_settings (Some [''status''])))
           \<and> ''status'' = ''status''"
    by (simp add: example_settings_def course_discovery_filter_fields_def)
  from total_is_sum_of_buckets [OF a disjI1 [OF sa]] total_is_sum_of_buckets [OF b disjI2 [OF sb]]
    a b show ?thesis by simp
qed

text \<open>
  C9. When neither \<open>start\<close> nor \<open>status\<close> is a configured filter field,
  \<open>process_range_data\<close> returns the envelope it was given, and reads no clock.
\<close>

theorem unconfigured_passes_through:
  assumes "''start'' \<notin> set (course_discovery_filter_fields st)"
    and "''status'' \<notin> set (course_discovery_filter_fields st)"
  shows "process_range_data st parse clk n res = Inr (res, n)"
  using assms by (simp add: process_range_data_def)

theorem unconfigured_passes_through_witness:
  "''start'' \<notin> set (course_discovery_filter_fields (example_settings None))
   \<and> ''status'' \<notin> set (course_discovery_filter_fields (example_settings None))
   \<and> process_range_data (example_settings None) example_parse (fixed_clock example_now) 0
        example_start_envelope = Inr (example_start_envelope, 0)"
proof -
  have a: "''start'' \<notin> set (course_discovery_filter_fields (example_settings None))"
    and b: "''status'' \<notin> set (course_discovery_filter_fields (example_settings None))"
    by (simp_all add: example_settings_def course_discovery_filter_fields_def
          DEFAULT_FILTER_FIELDS_def)
  from unconfigured_passes_through [OF a b] a b show ?thesis by simp
qed

subsection \<open>The unguarded write of the status pass\<close>

text \<open>
  The start pass is guarded against absent keys only: a \<open>facets\<close> mapping that is present
  and \<open>None\<close> makes line 94 raise \<open>AttributeError\<close>.
\<close>

lemma start_pass_none_facets:
  assumes "''start'' \<in> set (course_discovery_filter_fields st)"
    and "facets res = Some IsNone
         \<or> (\<exists>fs. facets res = Some (Val fs) \<and> map_of fs ''start'' = Some IsNone)"
  shows "process_range_data st parse clk n res = Inl AttributeError"
  using assms by (auto simp: process_range_data_def get_start_terms_def)





subsection \<open>The filters of course_discovery_search\<close>

text \<open>
  With an engine resolved, \<open>course_discovery_search\<close> hands the engine the arguments that
  \<open>search_arguments\<close> builds, and post-processes what the engine returns.
\<close>

lemma course_discovery_search_engine_call:
  assumes "get_search_engine (index_name st) = Some searcher"
  shows "course_discovery_search st generate_field_filters get_search_engine parse clk n
           search_term sz frm field_dictionary kw =
         (let ufd = use_field_dictionary_of st (fst (generate_field_filters kw)) clk n
                      field_dictionary kw;
              args = search_arguments st clk (snd ufd) search_term sz frm (fst ufd)
                       (snd (snd (generate_field_filters kw))) kw
          in case search searcher (fst args) of
               Inl e \<Rightarrow> Inl e
             | Inr res \<Rightarrow> process_range_data st parse clk (snd args) res)"
  using assms
  by (simp add: course_discovery_search_def case_prod_beta Let_def)

text \<open>
  The source reads the clock at every use: the two bounds of \<open>new\<close> and of \<open>soon\<close> come
  from two successive readings. The lemmas after this one take the clock to stand at one
  instant during the call, the reference instant of the specification.
\<close>

lemma start_filter_readings:
  "start_filter clk n (PStr ''new'') fd =
     (AList.update ''start''
        (format_filter (PDateRange (Some (clk n - timedelta_days 30)) (Some (clk (Suc n)))) True) fd,
      Suc (Suc n))"
  "start_filter clk n (PStr ''soon'') fd =
     (AList.update ''start''
        (format_filter (PDateRange (Some (clk n)) (Some (clk (Suc n) + timedelta_days 30))) True) fd,
      Suc (Suc n))"
  by (simp_all add: start_filter_def utcnow_def)

lemma start_filter_fixed:
  "fst (start_filter (fixed_clock now) n start fd) = dict_update fd (spec_start_filter now start)"
  by (simp add: start_filter_def spec_start_filter_def dict_update_def utcnow_def fixed_clock_def
        format_filter_def)

lemma status_filter_fixed:
  "fst (status_filter (fixed_clock now) n status fd) = dict_update fd (spec_status_filter now status)"
  by (simp add: status_filter_def spec_status_filter_def dict_update_def utcnow_def fixed_clock_def
        format_filter_def)

lemma pop_status_after_start:
  "dict_get (AList.delete ''start'' d) ''status'' PNone = dict_get d ''status'' PNone"
  by (simp add: dict_get_def)

lemma search_arguments_fixed:
  "fst (search_arguments st (fixed_clock now) n search_term sz frm use_field_dictionary
          exclude_dictionary kw) =
     \<lparr>sa_query_string = search_term,
      sa_doc_type = ''course_info'',
      sa_size = sz, sa_from = frm,
      sa_field_dictionary =
        (if ALLOW_CATALOG_VISIBILITY_FILTER st
         then AList.update ''catalog_visibility'' (PStr ''both'')
                (AList.delete ''status'' (AList.delete ''start'' use_field_dictionary))
         else AList.delete ''status'' (AList.delete ''start'' use_field_dictionary)),
      sa_filter_dictionary =
        dict_update
          (dict_update
             (if kw_allow_enrollment_end_filter kw = Some True
              then [(''enrollment_end'',
                     \<lparr>fvalue = PDateRange (Some now) None, missing_included = True\<rparr>)]
              else [])
             (spec_start_filter now (dict_get use_field_dictionary ''start'' PNone)))
          (spec_status_filter now (dict_get use_field_dictionary ''status'' PNone)),
      sa_exclude_dictionary = exclude_dictionary,
      sa_facet_terms = course_discovery_facets st\<rparr>"
proof -
  have filt: "fst (status_filter (fixed_clock now) m status
                (fst (start_filter (fixed_clock now) k start fd))) =
      dict_update (dict_update fd (spec_start_filter now start)) (spec_status_filter now status)"
    for m k status start fd
    by (simp only: status_filter_fixed start_filter_fixed)
  show ?thesis
    by (simp add: search_arguments_def Let_def case_prod_beta dict_pop_def filt
          pop_status_after_start utcnow_def fixed_clock_def format_filter_def
          CATALOG_VISIBILITY_CATALOG_AND_ABOUT_def)
qed

text \<open>
  C3. Course-discovery search, with an engine resolved and the clock standing at the
  reference instant \<open>now\<close> during the call, calls the engine's \<open>search\<close> with exactly these
  arguments: the field dictionary is the merged field dictionary without its \<open>start\<close>
  and \<open>status\<close> keys (plus \<open>catalog_visibility\<close> when that policy is set), so neither key
  reaches the engine; the filter dictionary is the optional \<open>enrollment_end\<close> entry,
  updated with the entries of the specification's table for the \<open>start\<close> value that was
  popped, then with those of the table for the \<open>status\<close> value that was popped. A value
  outside the tables, or an absent one, adds nothing. Both updates write the same
  dictionary, so when both values are given the \<open>start\<close> entry of \<open>status\<close> (for \<open>current\<close>
  and \<open>future\<close>) replaces the one of \<open>start\<close>, as the last two conjuncts spell out.
\<close>

theorem pseudo_fields_translated:
  assumes "get_search_engine (index_name st) = Some searcher"
    and "generate_field_filters kw = (search_fields, filters, exclude_dictionary)"
    and "use_field_dictionary_of st search_fields (fixed_clock now) n field_dictionary kw =
           (use_field_dictionary, n1)"
    and "sent_fields =
           (if ALLOW_CATALOG_VISIBILITY_FILTER st
            then AList.update ''catalog_visibility'' (PStr ''both'')
                   (AList.delete ''status'' (AList.delete ''start'' use_field_dictionary))
            else AList.delete ''status'' (AList.delete ''start'' use_field_dictionary))"
    and "sent_filters =
           dict_update
             (dict_update
                (if kw_allow_enrollment_end_filter kw = Some True
                 then [(''enrollment_end'',
                        \<lparr>fvalue = PDateRange (Some now) None, missing_included = True\<rparr>)]
                 else [])
                (spec_start_filter now (dict_get use_field_dictionary ''start'' PNone)))
             (spec_status_filter now (dict_get use_field_dictionary ''status'' PNone))"
  shows "(\<exists>n2. course_discovery_search st generate_field_filters get_search_engine parse
                  (fixed_clock now) n search_term sz frm field_dictionary kw =
               (case search searcher
                       \<lparr>sa_query_string = search_term,
                        sa_doc_type = ''course_info'',
                        sa_size = sz, sa_from = frm,
                        sa_field_dictionary = sent_fields,
                        sa_filter_dictionary = sent_filters,
                        sa_exclude_dictionary = exclude_dictionary,
                        sa_facet_terms = course_discovery_facets st\<rparr> of
                  Inl e \<Rightarrow> Inl e
                | Inr res \<Rightarrow> process_range_data st parse (fixed_clock now) n2 res))
       \<and> map_of sent_fields ''start'' = None
       \<and> map_of sent_fields ''status'' = None
       \<and> map_of sent_filters ''end'' =
           map_of (spec_status_filter now (dict_get use_field_dictionary ''status'' PNone)) ''end''
       \<and> map_of sent_filters ''start'' =
           (case map_of (spec_status_filter now (dict_get use_field_dictionary ''status'' PNone))
                   ''start'' of
              Some f \<Rightarrow> Some f
            | None \<Rightarrow>
                map_of (spec_start_filter now (dict_get use_field_dictionary ''start'' PNone))
                  ''start'')"
proof -
  have call: "course_discovery_search st generate_field_filters get_search_engine parse
                  (fixed_clock now) n search_term sz frm field_dictionary kw =
               (case search searcher
                       (fst (search_arguments st (fixed_clock now) n1 search_term sz frm
                               use_field_dictionary exclude_dictionary kw)) of
                  Inl e \<Rightarrow> Inl e
                | Inr res \<Rightarrow>
                    process_range_data st parse (fixed_clock now)
                      (snd (search_arguments st (fixed_clock now) n1 search_term sz frm
                               use_field_dictionary exclude_dictionary kw)) res)"
    using assms(1-3) by (simp add: course_discovery_search_def case_prod_beta cong: sum.case_cong)
  have first: "\<exists>n2. course_discovery_search st generate_field_filters get_search_engine parse
                  (fixed_clock now) n search_term sz frm field_dictionary kw =
               (case search searcher
                       \<lparr>sa_query_string = search_term,
                        sa_doc_type = ''course_info'',
                        sa_size = sz, sa_from = frm,
                        sa_field_dictionary = sent_fields,
                        sa_filter_dictionary = sent_filters,
                        sa_exclude_dictionary = exclude_dictionary,
                        sa_facet_terms = course_discovery_facets st\<rparr> of
                  Inl e \<Rightarrow> Inl e
                | Inr res \<Rightarrow> process_range_data st parse (fixed_clock now) n2 res)"
    unfolding call search_arguments_fixed assms(4,5) by (rule exI) (rule refl)
  have f1: "map_of sent_fields ''start'' = None"
    unfolding assms(4) by (simp add: update_conv' delete_conv')
  have f2: "map_of sent_fields ''status'' = None"
    unfolding assms(4) by (simp add: update_conv' delete_conv')
  have upd: "map_of (dict_update d other) k =
      (case map_of (rev other) k of Some f \<Rightarrow> Some f | None \<Rightarrow> map_of d k)"
    for d other :: "formatted_filter pydict" and k
  proof (induction other arbitrary: d)
    case Nil
    then show ?case by (simp add: dict_update_def)
  next
    case (Cons kv other)
    obtain k' v where kv: "kv = (k', v)" by (cases kv)
    have "dict_update d (kv # other) = dict_update (AList.update k' v d) other"
      by (simp add: dict_update_def kv)
    with Cons [of "AList.update k' v d"] kv show ?case
      by (auto simp: update_conv' map_add_def split: option.splits)
  qed
  have st_end: "map_of (rev (spec_start_filter now b)) ''end'' = None" for b
    by (simp add: spec_start_filter_def)
  have base: "map_of (if kw_allow_enrollment_end_filter kw = Some True
                 then [(''enrollment_end'',
                        \<lparr>fvalue = PDateRange (Some now) None, missing_included = True\<rparr>)]
                 else []) k = None" if "k = ''start'' \<or> k = ''end''" for k
    using that by auto
  have revs: "map_of (rev (spec_status_filter now b)) k = map_of (spec_status_filter now b) k"
    "map_of (rev (spec_start_filter now b)) k = map_of (spec_start_filter now b) k" for b k
    by (simp_all add: spec_status_filter_def spec_start_filter_def)
  have e: "map_of sent_filters ''end'' =
           map_of (spec_status_filter now (dict_get use_field_dictionary ''status'' PNone)) ''end''"
    unfolding assms(5) upd revs by (simp add: st_end [unfolded revs] base split: option.splits)
  have s: "map_of sent_filters ''start'' =
           (case map_of (spec_status_filter now (dict_get use_field_dictionary ''status'' PNone))
                   ''start'' of
              Some f \<Rightarrow> Some f
            | None \<Rightarrow>
                map_of (spec_start_filter now (dict_get use_field_dictionary ''start'' PNone))
                  ''start'')"
    unfolding assms(5) upd revs by (simp add: base split: option.splits)
  from first f1 f2 e s show ?thesis by (intro conjI)
qed

theorem pseudo_fields_translated_witness:
  "\<exists>n2. course_discovery_search (example_settings None) example_generator example_lookup
           example_parse (fixed_clock example_now) 0 None 20 0
           (Some [(''status'', PStr ''current''), (''start'', PStr ''new'')])
           \<lparr>kw_user = None, kw_course_id = None, kw_include_course_filter = None,
             kw_allow_enrollment_end_filter = None\<rparr> =
         (case search example_engine
                 \<lparr>sa_query_string = None,
                  sa_doc_type = ''course_info'',
                  sa_size = 20, sa_from = 0,
                  sa_field_dictionary =
                    [(''org'', PStr ''edX''),
                     (''enrollment_start'', PDateRange None (Some example_now))],
                  sa_filter_dictionary =
                    [(''start'',
                      \<lparr>fvalue = PDateRange None (Some example_now), missing_included = True\<rparr>),
                     (''end'',
                      \<lparr>fvalue = PDateRange (Some example_now) None, missing_included = True\<rparr>)],
                  sa_exclude_dictionary = [],
                  sa_facet_terms = course_discovery_facets (example_settings None)\<rparr> of
            Inl e \<Rightarrow> Inl e
          | Inr res \<Rightarrow>
              process_range_data (example_settings None) example_parse
                (fixed_clock example_now) n2 res)"
proof -
  let ?kw = "\<lparr>kw_user = None, kw_course_id = None, kw_include_course_filter = None,
             kw_allow_enrollment_end_filter = None\<rparr>"
  let ?ufd = "[(''org'', PStr ''edX''), (''status'', PStr ''current''), (''start'', PStr ''new''),
               (''enrollment_start'', PDateRange None (Some example_now))]"
  have a: "example_lookup (index_name (example_settings None)) = Some example_engine"
    by (simp add: example_lookup_def index_name_def example_settings_def)
  have b: "example_generator ?kw =
             ([(''org'', PStr ''edX''), (''course'', PStr ''course-v1:edX+Demo+2020'')],
              [(''start_date'', PDateRange None (Some example_now))], [])"
    by (simp add: example_generator_def)
  have c: "use_field_dictionary_of (example_settings None)
             [(''org'', PStr ''edX''), (''course'', PStr ''course-v1:edX+Demo+2020'')]
             (fixed_clock example_now) 0
             (Some [(''status'', PStr ''current''), (''start'', PStr ''new'')]) ?kw = (?ufd, 1)"
    by (simp add: use_field_dictionary_of_def example_settings_def dict_update_def utcnow_def
          fixed_clock_def)
  have d: "[(''org'', PStr ''edX''), (''enrollment_start'', PDateRange None (Some example_now))] =
           (if ALLOW_CATALOG_VISIBILITY_FILTER (example_settings None)
            then AList.update ''catalog_visibility'' (PStr ''both'')
                   (AList.delete ''status'' (AList.delete ''start'' ?ufd))
            else AList.delete ''status'' (AList.delete ''start'' ?ufd))"
    by (simp add: example_settings_def AList.delete_eq)
  have e: "[(''start'',
              \<lparr>fvalue = PDateRange None (Some example_now), missing_included = True\<rparr>),
            (''end'',
              \<lparr>fvalue = PDateRange (Some example_now) None, missing_included = True\<rparr>)] =
           dict_update
             (dict_update
                (if kw_allow_enrollment_end_filter ?kw = Some True
                 then [(''enrollment_end'',
                        \<lparr>fvalue = PDateRange (Some example_now) None, missing_included = True\<rparr>)]
                 else [])
                (spec_start_filter example_now (dict_get ?ufd ''start'' PNone)))
             (spec_status_filter example_now (dict_get ?ufd ''status'' PNone))"
    by (simp add: dict_get_def spec_start_filter_def spec_status_filter_def dict_update_def)
  from pseudo_fields_translated [where get_search_engine = example_lookup
      and st = "example_settings None" and generate_field_filters = example_generator
      and kw = ?kw and now = example_now and n = 0 and parse = example_parse
      and search_term = None and sz = 20 and frm = 0, OF a b c d e]
  show ?thesis by blast
qed

text \<open>
  C7. With the clock standing at \<open>now\<close>, every timestamp strictly inside the range that
  \<open>start_filter\<close> stores for a start bucket \<open>b\<close> is put back into \<open>b\<close> by \<open>start_bucket\<close>.
\<close>

theorem start_filter_round_trip:
  assumes "b \<in> {''current'', ''new'', ''soon'', ''future''}"
    and "map_of (fst (start_filter (fixed_clock now) n (PStr b) filter_dictionary)) ''start'' = Some f"
    and "fvalue f = PDateRange lower upper"
    and "strictly_inside lower upper t"
  shows "start_bucket now t = b"
proof -
  from assms(1) consider "b = ''current''" | "b = ''new''" | "b = ''soon''" | "b = ''future''"
    by auto
  then show ?thesis
  proof cases
    case 1
    with assms(2-4) show ?thesis
      by (auto simp: start_filter_def utcnow_def fixed_clock_def format_filter_def update_conv'
            strictly_inside_def start_bucket_def)
  next
    case 2
    with assms(2-4) show ?thesis
      by (auto simp: start_filter_def utcnow_def fixed_clock_def format_filter_def update_conv'
            strictly_inside_def start_bucket_def)
  next
    case 3
    with assms(2-4) show ?thesis
      by (auto simp: start_filter_def utcnow_def fixed_clock_def format_filter_def update_conv'
            strictly_inside_def start_bucket_def timedelta_days_def)
  next
    case 4
    with assms(2-4) show ?thesis
      by (auto simp: start_filter_def utcnow_def fixed_clock_def format_filter_def update_conv'
            strictly_inside_def start_bucket_def timedelta_days_def)
  qed
qed

theorem start_filter_round_trip_witness:
  "''soon'' \<in> {''current'', ''new'', ''soon'', ''future''}
   \<and> map_of (fst (start_filter (fixed_clock example_now) 0 (PStr ''soon'') [])) ''start'' =
       Some \<lparr>fvalue = PDateRange (Some example_now) (Some (example_now + timedelta_days 30)),
             missing_included = True\<rparr>
   \<and> strictly_inside (Some example_now) (Some (example_now + timedelta_days 30))
        (timedelta_days 105)
   \<and> start_bucket example_now (timedelta_days 105) = ''soon''"
proof -
  have a: "''soon'' \<in> {''current'', ''new'', ''soon'', ''future''}" by simp
  have b: "map_of (fst (start_filter (fixed_clock example_now) 0 (PStr ''soon'') [])) ''start'' =
       Some \<lparr>fvalue = PDateRange (Some example_now) (Some (example_now + timedelta_days 30)),
             missing_included = True\<rparr>"
    by (simp add: start_filter_def utcnow_def fixed_clock_def format_filter_def)
  have c: "fvalue \<lparr>fvalue = PDateRange (Some example_now) (Some (example_now + timedelta_days 30)),
             missing_included = True\<rparr> =
           PDateRange (Some example_now) (Some (example_now + timedelta_days 30))"
    by simp
  have d: "strictly_inside (Some example_now) (Some (example_now + timedelta_days 30))
        (timedelta_days 105)"
    by (simp add: strictly_inside_def example_now_def timedelta_days_def)
  from start_filter_round_trip [OF a b c d] a b d show ?thesis by simp
qed

subsection \<open>perform_search and the missing engine\<close>

lemma process_results_data:
  "process_results process_result search_term usr raw = Inr rs \<Longrightarrow>
     length rs = length raw \<and>
     map (\<lambda>r. map_of r ''data'') rs =
       map (\<lambda>r. map_option (\<lambda>d. process_result d search_term usr) (map_of r ''data'')) raw"
proof (induction raw arbitrary: rs)
  case Nil
  then show ?case by simp
next
  case (Cons r raw)
  then show ?case
    by (auto simp: dict_item_def update_conv' split: option.splits sum.splits)
qed

text \<open>
  C6. When \<open>perform_search\<close> returns, every row the engine returned has been processed;
  the rows whose processed payload is \<open>None\<close> are counted in \<open>access_denied_count\<close> and left
  out of \<open>results\<close>, the others are kept, so the count plus the number of rows returned is
  the number of rows the engine returned.
\<close>

theorem access_denied_plus_results:
  assumes "perform_search st generate_field_filters get_search_engine process_result
             search_term usr sz frm course_id = Inr res'"
  shows "\<exists>searcher args res raw rs.
           get_search_engine (index_name st) = Some searcher
         \<and> search_string searcher args = Inr res
         \<and> results res = Some (Val raw)
         \<and> process_results process_result search_term usr raw = Inr rs
         \<and> map (\<lambda>r. map_of r ''data'') rs =
             map (\<lambda>r. map_option (\<lambda>d. process_result d search_term usr) (map_of r ''data'')) raw
         \<and> access_denied_count res' = Some (length (filter data_is_None rs))
         \<and> results res' = Some (Val (filter (\<lambda>r. \<not> data_is_None r) rs))
         \<and> length (filter data_is_None rs) + length (filter (\<lambda>r. \<not> data_is_None r) rs) =
             length raw"
proof -
  obtain fd fld exd where g:
    "generate_field_filters
       \<lparr>kw_user = usr, kw_course_id = course_id,
        kw_include_course_filter = None, kw_allow_enrollment_end_filter = None\<rparr> = (fd, fld, exd)"
    by (cases "generate_field_filters
       \<lparr>kw_user = usr, kw_course_id = course_id,
        kw_include_course_filter = None, kw_allow_enrollment_end_filter = None\<rparr>") auto
  from assms g obtain searcher where s: "get_search_engine (index_name st) = Some searcher"
    by (cases "get_search_engine (index_name st)") (auto simp: perform_search_def)
  define args where "args =
     \<lparr>ss_search_term = search_term, ss_field_dictionary = fd,
      ss_filter_dictionary = map (\<lambda>(key, v). (key, format_filter v True)) fld,
      ss_exclude_dictionary = exd, ss_size = sz, ss_from = frm,
      ss_doc_type = ''courseware_content'', ss_include_content = True\<rparr>"
  from assms g s obtain res where r: "search_string searcher args = Inr res"
    by (cases "search_string searcher args") (auto simp: perform_search_def args_def)
  from assms g s r obtain raw where w: "results res = Some (Val raw)"
    by (cases "results res") (auto simp: perform_search_def args_def split: nullable.splits)
  from assms g s r w obtain rs where p:
    "process_results process_result search_term usr raw = Inr rs"
    by (cases "process_results process_result search_term usr raw")
       (auto simp: perform_search_def args_def)
  from assms g s r w p have out:
    "res' = res\<lparr>access_denied_count := Some (length (filter data_is_None rs)),
               results := Some (Val (filter (\<lambda>r. \<not> data_is_None r) rs))\<rparr>"
    by (simp add: perform_search_def args_def)
  from process_results_data [OF p] have len: "length rs = length raw"
    and dat: "map (\<lambda>r. map_of r ''data'') rs =
       map (\<lambda>r. map_option (\<lambda>d. process_result d search_term usr) (map_of r ''data'')) raw"
    by simp_all
  have "length (filter data_is_None rs) + length (filter (\<lambda>r. \<not> data_is_None r) rs) = length raw"
    using sum_length_filter_compl [of data_is_None rs] len by simp
  with s r w p dat out show ?thesis by auto
qed

theorem access_denied_plus_results_witness:
  "perform_search (example_settings None) example_generator example_lookup example_processor
      ''demo'' None 10 0 None =
     Inr \<lparr>results = Some (Val [[(''data'', PDict [(''id'', PInt 1)])],
                          [(''data'', PDict [(''id'', PInt 3)])]]),
          facets = None, access_denied_count = Some 1\<rparr>"
proof -
  have a: "perform_search (example_settings None) example_generator example_lookup example_processor
      ''demo'' None 10 0 None =
     Inr \<lparr>results = Some (Val [[(''data'', PDict [(''id'', PInt 1)])],
                          [(''data'', PDict [(''id'', PInt 3)])]]),
          facets = None, access_denied_count = Some 1\<rparr>"
    by (simp add: perform_search_def example_settings_def example_generator_def example_lookup_def
          example_processor_def example_engine_def index_name_def dict_item_def data_is_None_def)
  from access_denied_plus_results [OF a] a show ?thesis by simp
qed

text \<open>
  C8. When the engine lookup finds no engine for the configured index name, both entry
  points fail with \<open>NoSearchEngineError\<close>; no engine exists whose contract could be called.
\<close>

theorem no_engine_raises:
  assumes "get_search_engine (index_name st) = None"
  shows "perform_search st generate_field_filters get_search_engine process_result
           search_term usr sz frm course_id = Inl NoSearchEngineError
       \<and> course_discovery_search st generate_field_filters get_search_engine parse clk n
           search_term' sz' frm' field_dictionary kw = Inl NoSearchEngineError"
  using assms
  by (simp add: perform_search_def course_discovery_search_def case_prod_beta Let_def)

theorem no_engine_raises_witness:
  "example_lookup (index_name ((example_settings None)\<lparr>COURSEWARE_INDEX_NAME := Some ''other_index''\<rparr>)) = None
   \<and> perform_search ((example_settings None)\<lparr>COURSEWARE_INDEX_NAME := Some ''other_index''\<rparr>)
        example_generator example_lookup example_processor ''demo'' None 10 0 None =
      Inl NoSearchEngineError
   \<and> course_discovery_search ((example_settings None)\<lparr>COURSEWARE_INDEX_NAME := Some ''other_index''\<rparr>)
        example_generator example_lookup example_parse (fixed_clock example_now) 0
        None 20 0 None
        \<lparr>kw_user = None, kw_course_id = None, kw_include_course_filter = None,
          kw_allow_enrollment_end_filter = None\<rparr> = Inl NoSearchEngineError"
proof -
  have a: "example_lookup (index_name ((example_settings None)\<lparr>COURSEWARE_INDEX_NAME := Some ''other_index''\<rparr>)) = None"
    by (simp add: example_lookup_def index_name_def example_settings_def)
  from no_engine_raises [where get_search_engine = example_lookup
      and st = "(example_settings None)\<lparr>COURSEWARE_INDEX_NAME := Some ''other_index''\<rparr>", OF a] a
  show ?thesis by simp
qed

end
